theory Spec2Isabelle
  imports Main "HOL-Library.Word" "HOL-Library.Char_ord" "HOL-Library.List_Lexorder"
    "HOL-Library.Product_Lexorder"
begin

unbundle bit_operations_syntax

section \<open>Data model (worker.go, lines 17-39)\<close>

text \<open>
  Both task structs start with the fields \<open>M, R, N int\<close>; they are the common part of the
  two records. Go's \<open>int\<close> is modelled as \<open>int\<close>; on the usual 64-bit platforms it
  ranges over \<open>- 2 ^ 63 .. 2 ^ 63 - 1\<close>, and the places where the width is visible
  (the conversion \<open>uint32(task.R)\<close>, the sum in \<open>Reduce\<close>) write the truncation out.
  A Go \<open>string\<close> is a sequence of bytes: \<open>string\<close>.
\<close>

record Task =
  M :: int
  R :: int
  N :: int

record MapTask = Task +
  SourceHost :: string

record ReduceTask = Task +
  SourceHosts :: "string list"

record Pair =
  Key :: string
  Value :: string

text \<open>
  A returned \<open>error\<close> value, and the ways the process stops instead of returning:
  a run-time panic or \<open>log.Fatalf\<close>.
\<close>

datatype error = ErrDownload | ErrOpen | ErrCreate | ErrQuery | ErrExec | ErrMerge
  | ErrAtoi | ErrOS

datatype crash = DivideByZero | IndexOutOfRange | NoLocalAddress | Fatal error

section \<open>File names (lines 51-81)\<close>

text \<open>\<open>%d\<close> of \<open>fmt.Sprintf\<close>: the decimal digits, with a leading minus sign.\<close>

definition digit :: "nat \<Rightarrow> char" where
  "digit d = ''0123456789'' ! d"

function formatNat :: "nat \<Rightarrow> string" where
  "formatNat n = (if n < 10 then [digit n] else formatNat (n div 10) @ [digit (n mod 10)])"
  by pat_completeness auto
termination
  by (relation "measure id") auto

declare formatNat.simps [simp del]

definition formatInt :: "int \<Rightarrow> string" where
  "formatInt i = (if i < 0 then CHR ''-'' # formatNat (nat (- i)) else formatNat (nat i))"

definition mapSourceFile :: "int \<Rightarrow> string" where
  "mapSourceFile m = ''map_'' @ formatInt m @ ''_source.db''"

definition mapInputFile :: "int \<Rightarrow> string" where
  "mapInputFile m = ''map_'' @ formatInt m @ ''_input.db''"

definition mapOutputFile :: "int \<Rightarrow> int \<Rightarrow> string" where
  "mapOutputFile m r = ''map_'' @ formatInt m @ ''_output_'' @ formatInt r @ ''.db''"

definition reduceInputFile :: "int \<Rightarrow> string" where
  "reduceInputFile r = ''reduce_'' @ formatInt r @ ''_input.db''"

definition reduceOutputFile :: "int \<Rightarrow> string" where
  "reduceOutputFile r = ''reduce_'' @ formatInt r @ ''_output.db''"

definition reducePartialFile :: "int \<Rightarrow> string" where
  "reducePartialFile r = ''reduce_'' @ formatInt r @ ''_partial.db''"

definition reduceTempFile :: "int \<Rightarrow> string" where
  "reduceTempFile r = ''reduce_'' @ formatInt r @ ''_temp.db''"

definition makeURL :: "string \<Rightarrow> string \<Rightarrow> string" where
  "makeURL host file = ''http://'' @ host @ ''/data/'' @ file"

section \<open>The stores\<close>

text \<open>
  The state outside the process: the local files, each a database holding the rows of its
  table \<open>pairs\<close> in insertion order, and the files that the endpoints serve, by URL.
\<close>

record world =
  disk :: "string \<rightharpoonup> Pair list"
  net :: "string \<rightharpoonup> Pair list"

text \<open>
  Modelled from the spec: \<open>createDatabase\<close>, \<open>openDatabase\<close> and the \<open>database/sql\<close>
  handle are not in worker.go. The store abstraction of the spec (section 6) is
  \<open>Open(name) -> handle | create-if-absent\<close>, \<open>Insert(handle, Pair)\<close>,
  \<open>ScanAll(handle)\<close>: creating gives an empty store, opening needs the file, inserting
  appends a row, scanning returns the rows. A handle is the path it was opened on.
\<close>

definition createDatabase :: "string \<Rightarrow> world \<Rightarrow> (error + string) \<times> world" where
  "createDatabase path w = (Inr path, w\<lparr>disk := (disk w)(path \<mapsto> [])\<rparr>)"

definition openDatabase :: "string \<Rightarrow> world \<Rightarrow> (error + string) \<times> world" where
  "openDatabase path w = (case disk w path of None \<Rightarrow> (Inl ErrOpen, w) | Some _ \<Rightarrow> (Inr path, w))"

definition db_Exec_insert :: "string \<Rightarrow> Pair \<Rightarrow> world \<Rightarrow> error option \<times> world" where
  "db_Exec_insert db pair w =
     (case disk w db of
        None \<Rightarrow> (Some ErrExec, w)
      | Some rows \<Rightarrow> (None, w\<lparr>disk := (disk w)(db \<mapsto> rows @ [pair])\<rparr>))"

definition db_Query :: "string \<Rightarrow> world \<Rightarrow> error + Pair list" where
  "db_Query db w = (case disk w db of None \<Rightarrow> Inl ErrQuery | Some rows \<Rightarrow> Inr rows)"

text \<open>
  \<open>getDatabase\<close> (lines 159-166): \<open>os.Stat\<close> fails with a not-exist error exactly when the
  file is absent.
\<close>

definition getDatabase :: "string \<Rightarrow> world \<Rightarrow> (error + string) \<times> world" where
  "getDatabase path w =
     (if disk w path = None then createDatabase path w else openDatabase path w)"

section \<open>The partitioner and InsertPair (lines 168-193)\<close>

text \<open>\<open>fnv.New32()\<close> is 32-bit FNV-1: multiply by the prime, then xor the byte.\<close>

definition offset32 :: "32 word" where
  "offset32 = 2166136261"

definition prime32 :: "32 word" where
  "prime32 = 16777619"

fun fnv32_Write :: "32 word \<Rightarrow> string \<Rightarrow> 32 word" where
  "fnv32_Write h [] = h"
| "fnv32_Write h (c # cs) = fnv32_Write ((h * prime32) XOR of_char c) cs"

text \<open>
  Lines 172-174: \<open>r := int(hash.Sum32() % uint32(task.R))\<close>. The conversion to
  \<open>uint32\<close> keeps the low 32 bits of \<open>task.R\<close>; a zero divisor is a run-time panic.
\<close>

definition InsertPair_r :: "'a MapTask_scheme \<Rightarrow> Pair \<Rightarrow> crash + int" where
  "InsertPair_r task pair =
     (let hash = fnv32_Write offset32 (Key pair);
          d = (word_of_int (R task) :: 32 word)
      in if d = 0 then Inl DivideByZero else Inr (uint (hash mod d)))"

text \<open>
  \<open>filepath.Join\<close> is a parameter. Both error branches stop the process
  (\<open>db.Close()\<close>, then \<open>log.Fatalf\<close>); the \<open>return err\<close> behind it is never
  reached. Closing a handle changes nothing in the stores.
\<close>

definition InsertPair ::
  "(string \<Rightarrow> string \<Rightarrow> string) \<Rightarrow> 'a MapTask_scheme \<Rightarrow> string \<Rightarrow> Pair \<Rightarrow> world
     \<Rightarrow> crash + (error option \<times> world)" where
  "InsertPair Join task path pair w =
     (let n = N task in
      case InsertPair_r task pair of
        Inl c \<Rightarrow> Inl c
      | Inr r \<Rightarrow>
          (let outputDB = mapOutputFile n r in
           case getDatabase (Join path outputDB) w of
             (Inl err, w1) \<Rightarrow> Inl (Fatal err)
           | (Inr db, w1) \<Rightarrow>
               (case db_Exec_insert db pair w1 of
                  (Some err, w2) \<Rightarrow> Inl (Fatal err)
                | (None, w2) \<Rightarrow> Inr (None, w2))))"

section \<open>The word-count client (lines 101-131)\<close>

subsection \<open>Runes and UTF-8\<close>

text \<open>
  A \<open>rune\<close> is an \<open>int32\<close>. The tables of package \<open>unicode\<close> are parameters.
\<close>

type_synonym rune = int

record unicode =
  IsSpace :: "rune \<Rightarrow> bool"
  IsLetter :: "rune \<Rightarrow> bool"
  IsDigit :: "rune \<Rightarrow> bool"
  ToLower :: "rune \<Rightarrow> rune"

definition RuneError :: rune where
  "RuneError = 65533"

text \<open>
  \<open>utf8.DecodeRuneInString\<close>: the rune at the front of the string and its width in
  bytes; an invalid or truncated encoding is \<open>RuneError\<close> of width 1.
\<close>

definition DecodeRuneInString :: "string \<Rightarrow> rune \<times> nat" where
  "DecodeRuneInString s =
     (if s = [] then (RuneError, 0)
      else
        let s0 = (of_char (s ! 0) :: nat) in
        if s0 < 128 then (int s0, 1)
        else if s0 < 194 \<or> 244 < s0 then (RuneError, 1)
        else
          let sz = (if s0 < 224 then 2 else if s0 < 240 then 3 else (4::nat));
              lo = (if s0 = 224 then 160 else if s0 = 240 then 144 else (128::nat));
              hi = (if s0 = 237 then 159 else if s0 = 244 then 143 else (191::nat))
          in
          if length s < sz then (RuneError, 1)
          else
            let s1 = (of_char (s ! 1) :: nat) in
            if s1 < lo \<or> hi < s1 then (RuneError, 1)
            else if sz \<le> 2 then (int ((s0 mod 32) * 64 + s1 mod 64), 2)
            else
              let s2 = (of_char (s ! 2) :: nat) in
              if s2 < 128 \<or> 191 < s2 then (RuneError, 1)
              else if sz \<le> 3 then
                (int ((s0 mod 16) * 4096 + (s1 mod 64) * 64 + s2 mod 64), 3)
              else
                let s3 = (of_char (s ! 3) :: nat) in
                if s3 < 128 \<or> 191 < s3 then (RuneError, 1)
                else (int ((s0 mod 8) * 262144 + (s1 mod 64) * 4096 + (s2 mod 64) * 64
                        + s3 mod 64), 4))"

text \<open>\<open>for _, c := range s\<close>: the runes of a string, each with the bytes it was read from.\<close>

lemma DecodeRuneInString_width: "s \<noteq> [] \<Longrightarrow> 0 < snd (DecodeRuneInString s)"
  by (simp add: DecodeRuneInString_def Let_def)

function runes :: "string \<Rightarrow> (rune \<times> string) list" where
  "runes s =
     (if s = [] then []
      else let (r, width) = DecodeRuneInString s
           in (r, take width s) # runes (drop width s))"
  by pat_completeness auto
termination
proof (relation "measure length")
  show "wf (measure length)" by simp
next
  fix s :: string and x :: "rune \<times> nat" and r width
  assume "s \<noteq> []" "x = DecodeRuneInString s" "(r, width) = x"
  then have "0 < width" using DecodeRuneInString_width [of s] by (metis snd_conv)
  then show "(drop width s, s) \<in> measure length" using \<open>s \<noteq> []\<close> by simp
qed

declare runes.simps [simp del]

text \<open>\<open>utf8.AppendRune\<close> on a rune that is not negative.\<close>

definition EncodeRune :: "rune \<Rightarrow> string" where
  "EncodeRune r =
     (let n = nat r in
      if n \<le> 127 then [char_of n]
      else if n \<le> 2047 then [char_of (192 + n div 64), char_of (128 + n mod 64)]
      else if 1114111 < n \<or> (55296 \<le> n \<and> n \<le> 57343) then
        [char_of (239::nat), char_of (191::nat), char_of (189::nat)]
      else if n \<le> 65535 then
        [char_of (224 + n div 4096), char_of (128 + (n div 64) mod 64), char_of (128 + n mod 64)]
      else
        [char_of (240 + n div 262144), char_of (128 + (n div 4096) mod 64),
         char_of (128 + (n div 64) mod 64), char_of (128 + n mod 64)])"

subsection \<open>strings.Fields and strings.Map\<close>

text \<open>
  \<open>strings.Fields\<close> is \<open>strings.FieldsFunc(s, unicode.IsSpace)\<close>: \<open>start\<close> is the field
  being read, if any; a space ends it.
\<close>

fun FieldsFunc_loop :: "(rune \<Rightarrow> bool) \<Rightarrow> (rune \<times> string) list \<Rightarrow> string option \<Rightarrow> string list" where
  "FieldsFunc_loop f [] None = []"
| "FieldsFunc_loop f [] (Some field) = [field]"
| "FieldsFunc_loop f ((r, bytes) # rs) start =
     (if f r then
        (case start of
           None \<Rightarrow> FieldsFunc_loop f rs None
         | Some field \<Rightarrow> field # FieldsFunc_loop f rs None)
      else
        (case start of
           None \<Rightarrow> FieldsFunc_loop f rs (Some bytes)
         | Some field \<Rightarrow> FieldsFunc_loop f rs (Some (field @ bytes))))"

definition strings_Fields :: "unicode \<Rightarrow> string \<Rightarrow> string list" where
  "strings_Fields U s = FieldsFunc_loop (IsSpace U) (runes s) None"

text \<open>\<open>strings.Map\<close>: a rune mapped to a negative value is dropped.\<close>

definition strings_Map :: "(rune \<Rightarrow> rune) \<Rightarrow> string \<Rightarrow> string" where
  "strings_Map mapping s =
     concat (map (\<lambda>(c, bytes). let r = mapping c in if 0 \<le> r then EncodeRune r else [])
       (runes s))"

subsection \<open>Map and Reduce\<close>

text \<open>
  A channel is the list of the values sent on it, in order. The result of \<open>Map\<close> and of
  \<open>Reduce\<close> is what was sent on \<open>output\<close> and the error returned.
\<close>

record Interface =
  Map :: "string \<Rightarrow> string \<Rightarrow> Pair list \<times> error option"
  Reduce :: "string \<Rightarrow> string list \<Rightarrow> Pair list \<times> error option"

definition Map_mapping :: "unicode \<Rightarrow> rune \<Rightarrow> rune" where
  "Map_mapping U r = (if IsLetter U r \<or> IsDigit U r then ToLower U r else - 1)"

fun Map_loop :: "unicode \<Rightarrow> string list \<Rightarrow> Pair list \<Rightarrow> Pair list" where
  "Map_loop U [] output = output"
| "Map_loop U (elt # lst) output =
     (let word = strings_Map (Map_mapping U) elt
      in if length word > 0
         then Map_loop U lst (output @ [\<lparr>Key = word, Value = ''1''\<rparr>])
         else Map_loop U lst output)"

definition Client_Map :: "unicode \<Rightarrow> string \<Rightarrow> string \<Rightarrow> Pair list \<times> error option" where
  "Client_Map U key val = (let lst = strings_Fields U val in (Map_loop U lst [], None))"

text \<open>
  \<open>strconv.Atoi\<close>: an optional sign and at least one decimal digit, the value within
  the 64-bit range; anything else is an error.
\<close>

fun parseDigits :: "nat \<Rightarrow> string \<Rightarrow> nat option" where
  "parseDigits n [] = Some n"
| "parseDigits n (c # cs) =
     (let d = (of_char c :: nat)
      in if 48 \<le> d \<and> d \<le> 57 then parseDigits (n * 10 + (d - 48)) cs else None)"

definition Atoi :: "string \<Rightarrow> error + int" where
  "Atoi s =
     (let neg = (s \<noteq> [] \<and> s ! 0 = CHR ''-'');
          ds = (if s \<noteq> [] \<and> (s ! 0 = CHR ''-'' \<or> s ! 0 = CHR ''+'') then tl s else s)
      in if ds = [] then Inl ErrAtoi
         else case parseDigits 0 ds of
                None \<Rightarrow> Inl ErrAtoi
              | Some un \<Rightarrow>
                  if \<not> neg \<and> 2 ^ 63 \<le> un then Inl ErrAtoi
                  else if neg \<and> 2 ^ 63 < un then Inl ErrAtoi
                  else Inr (if neg then - int un else int un))"

text \<open>Arithmetic on \<open>int\<close> wraps around in two's complement, 64 bits wide.\<close>

definition wrap64 :: "int \<Rightarrow> int" where
  "wrap64 i = (i + 2 ^ 63) mod 2 ^ 64 - 2 ^ 63"

fun Reduce_loop :: "int \<Rightarrow> string list \<Rightarrow> error + int" where
  "Reduce_loop count [] = Inr count"
| "Reduce_loop count (v # values) =
     (case Atoi v of
        Inl err \<Rightarrow> Inl err
      | Inr i \<Rightarrow> Reduce_loop (wrap64 (count + i)) values)"

definition Client_Reduce :: "string \<Rightarrow> string list \<Rightarrow> Pair list \<times> error option" where
  "Client_Reduce key values =
     (case Reduce_loop 0 values of
        Inl err \<Rightarrow> ([], Some err)
      | Inr count \<Rightarrow> ([\<lparr>Key = key, Value = formatInt count\<rparr>], None))"

definition Client :: "unicode \<Rightarrow> Interface" where
  "Client U = \<lparr>Map = Client_Map U, Reduce = Client_Reduce\<rparr>"

section \<open>MapTask.Process (lines 195-257)\<close>

text \<open>
  Modelled from the spec: \<open>download\<close> is not in worker.go. The transfer client of the
  spec (section 2) fetches a named data file from a remote endpoint into local storage: the
  file served at the URL is copied to the destination, and a URL that serves nothing is an
  error.
\<close>

definition download :: "string \<Rightarrow> string \<Rightarrow> world \<Rightarrow> error option \<times> world" where
  "download url dest w =
     (case net w url of
        None \<Rightarrow> (Some ErrDownload, w)
      | Some rows \<Rightarrow> (None, w\<lparr>disk := (disk w)(dest \<mapsto> rows)\<rparr>))"

text \<open>
  A \<open>go\<close> statement starts a goroutine and goes on; nothing in \<open>Process\<close> waits for it
  (no \<open>sync.WaitGroup\<close>, no channel receive). The goroutines a call has started and not
  waited for are part of its result: \<open>ScanRows rows\<close> is the goroutine of lines 223-254,
  which owns the result set of the query.
\<close>

datatype goroutine = ScanRows "Pair list"

text \<open>
  The error of \<open>download\<close> is printed (line 203) and then overwritten by the result of
  \<open>openDatabase\<close>. \<open>rows, err := db.Query(...)\<close> assigns to the same \<open>err\<close>, so at the
  final \<open>return err\<close> the variable holds the \<open>nil\<close> of the query, the goroutine not
  having written to it yet. The deferred \<open>db.Close()\<close> changes nothing in the stores.
\<close>

definition MapTask_Process ::
  "MapTask \<Rightarrow> string \<Rightarrow> Interface \<Rightarrow> world \<Rightarrow> error option \<times> goroutine list \<times> world" where
  "MapTask_Process task path client w =
     (let file = mapSourceFile (N task);
          url = makeURL (SourceHost task) file;
          mapFile = mapInputFile (N task)
      in case download url mapFile w of
           (err, w1) \<Rightarrow>
             (case openDatabase mapFile w1 of
                (Inl err, w2) \<Rightarrow> (Some err, [], w2)
              | (Inr db, w2) \<Rightarrow>
                  (case db_Query db w2 of
                     Inl err \<Rightarrow> (Some err, [], w2)
                   | Inr rows \<Rightarrow> (None, [ScanRows rows], w2))))"

text \<open>
  The body of the goroutine, run to its end: for every row the pairs that \<open>client.Map\<close>
  sends on \<open>output\<close> are received by the inner goroutine (lines 238-245) and inserted in
  the order sent, and \<open>task.M\<close> is incremented. The inner goroutine of a row is run to its
  end before the next row is read, which is one of the possible schedules. An error
  returned by \<open>InsertPair\<close> or \<open>client.Map\<close> is printed only. A row of the store is a
  pair of strings, so \<open>rows.Scan\<close> does not fail. \<open>task.M++\<close> wraps around like every
  \<open>int\<close>.
\<close>

fun insert_loop ::
  "(string \<Rightarrow> string \<Rightarrow> string) \<Rightarrow> MapTask \<Rightarrow> string \<Rightarrow> Pair list \<Rightarrow> world \<Rightarrow> crash + world" where
  "insert_loop Join task path [] w = Inr w"
| "insert_loop Join task path (pair # output) w =
     (case InsertPair Join task path pair w of
        Inl c \<Rightarrow> Inl c
      | Inr (err, w') \<Rightarrow> insert_loop Join task path output w')"

fun scan_loop ::
  "(string \<Rightarrow> string \<Rightarrow> string) \<Rightarrow> string \<Rightarrow> Interface \<Rightarrow> Pair list \<Rightarrow> MapTask \<Rightarrow> world
     \<Rightarrow> crash + (MapTask \<times> world)" where
  "scan_loop Join path client [] task w = Inr (task, w)"
| "scan_loop Join path client (row # rows) task w =
     (let key = Key row;
          val = Value row;
          (output, err) = Map client key val
      in case insert_loop Join task path output w of
           Inl c \<Rightarrow> Inl c
         | Inr w' \<Rightarrow> scan_loop Join path client rows (task\<lparr>M := wrap64 (M task + 1)\<rparr>) w')"

fun run_goroutine ::
  "(string \<Rightarrow> string \<Rightarrow> string) \<Rightarrow> string \<Rightarrow> Interface \<Rightarrow> goroutine \<Rightarrow> MapTask \<Rightarrow> world
     \<Rightarrow> crash + (MapTask \<times> world)" where
  "run_goroutine Join path client (ScanRows rows) task w = scan_loop Join path client rows task w"

section \<open>ReduceTask.Process (lines 261-281)\<close>

text \<open>
  Lines 265-271: the loop over \<open>m\<close>. Indexing \<open>task.SourceHosts[m]\<close> beyond the slice
  is a run-time panic.
\<close>

function Process_urls :: "ReduceTask \<Rightarrow> int \<Rightarrow> string list \<Rightarrow> crash + string list" where
  "Process_urls task m reduce_temp_files =
     (if m < M task then
        (if 0 \<le> m \<and> m < int (length (SourceHosts task)) then
           (let file = mapOutputFile m (N task);
                url = makeURL (SourceHosts task ! nat m) file
            in Process_urls task (m + 1) (reduce_temp_files @ [url]))
         else Inl IndexOutOfRange)
      else Inr reduce_temp_files)"
  by pat_completeness auto
termination
  by (relation "measure (\<lambda>(task, m, fs). nat (M task - m))") auto

declare Process_urls.simps [simp del]

text \<open>
  \<open>mergeDatabases\<close> is not in worker.go: it is a parameter. A failed merge ends in
  \<open>log.Fatalf\<close>. The client is not used: the call of \<open>client.Reduce\<close> is in the part
  of the function that is commented out (lines 284-361).
\<close>

definition ReduceTask_Process ::
  "(string list \<Rightarrow> string \<Rightarrow> string \<Rightarrow> world \<Rightarrow> (error + string) \<times> world)
     \<Rightarrow> ReduceTask \<Rightarrow> string \<Rightarrow> Interface \<Rightarrow> world \<Rightarrow> crash + (error option \<times> world)" where
  "ReduceTask_Process mergeDatabases task path client w =
     (case Process_urls task 0 [] of
        Inl c \<Rightarrow> Inl c
      | Inr reduce_temp_files \<Rightarrow>
          (case mergeDatabases reduce_temp_files (reduceInputFile (N task))
                  (reduceTempFile (N task)) w of
             (Inl err, w1) \<Rightarrow> Inl (Fatal err)
           | (Inr db, w1) \<Rightarrow> Inr (None, w1)))"

text \<open>
  Modelled from the spec: the merge engine (sections 4.3 and 4.4) fetches every source,
  fails if one cannot be fetched, and writes the union of the pairs, sorted by key and then
  by value, duplicates kept, to the store it returns.
\<close>

definition mergeDatabases_spec ::
  "string list \<Rightarrow> string \<Rightarrow> string \<Rightarrow> world \<Rightarrow> (error + string) \<times> world" where
  "mergeDatabases_spec urls path temp w =
     (case those (map (net w) urls) of
        None \<Rightarrow> (Inl ErrMerge, w)
      | Some sources \<Rightarrow>
          (Inr path,
           w\<lparr>disk := (disk w)(path \<mapsto> sort_key (\<lambda>p. (Key p, Value p)) (concat sources))\<rparr>))"

section \<open>The tasks built by main (lines 365-480)\<close>

text \<open>Division of \<open>int\<close> truncates towards zero and panics on a zero divisor.\<close>

definition go_div :: "int \<Rightarrow> int \<Rightarrow> crash + int" where
  "go_div a b =
     (if b = 0 then Inl DivideByZero else Inr (wrap64 (sgn a * sgn b * (\<bar>a\<bar> div \<bar>b\<bar>))))"

text \<open>The constants of lines 41-49 and \<open>createPaths\<close> (lines 133-157).\<close>

definition mapSource :: int where
  "mapSource = 0"

definition mapInput :: int where
  "mapInput = 1"

definition mapOutput :: int where
  "mapOutput = 2"

definition reduceInput :: int where
  "reduceInput = 3"

definition reduceOutput :: int where
  "reduceOutput = 4"

definition reducePartial :: int where
  "reducePartial = 5"

definition reduceTemp :: int where
  "reduceTemp = 6"

function createPaths_loop ::
  "(string \<Rightarrow> string \<Rightarrow> string) \<Rightarrow> int \<Rightarrow> int \<Rightarrow> string \<Rightarrow> int \<Rightarrow> string list \<Rightarrow> string list" where
  "createPaths_loop Join amount typeOfFile tmp i paths =
     (if i < amount then
        createPaths_loop Join amount typeOfFile tmp (i + 1)
          (if typeOfFile = mapSource then paths @ [Join tmp (mapSourceFile i)]
           else if typeOfFile = mapInput then paths @ [Join tmp (mapInputFile i)]
           else if typeOfFile = mapOutput then paths @ [Join tmp (mapOutputFile i i)]
           else if typeOfFile = reduceInput then paths @ [Join tmp (reduceInputFile i)]
           else if typeOfFile = reduceOutput then paths @ [Join tmp (reduceOutputFile i)]
           else if typeOfFile = reducePartial then paths @ [Join tmp (reducePartialFile i)]
           else if typeOfFile = reduceTemp then paths @ [Join tmp (reduceTempFile i)]
           else paths)
      else paths)"
  by pat_completeness auto
termination
  by (relation "measure (\<lambda>(Join, amount, typeOfFile, tmp, i, paths). nat (amount - i))") auto

declare createPaths_loop.simps [simp del]

definition createPaths :: "(string \<Rightarrow> string \<Rightarrow> string) \<Rightarrow> int \<Rightarrow> int \<Rightarrow> string \<Rightarrow> string list" where
  "createPaths Join amount typeOfFile tmp = createPaths_loop Join amount typeOfFile tmp 0 []"

text \<open>
  What \<open>main\<close> gets from outside worker.go before it builds the tasks: the two counts
  (the errors of \<open>getNumberOfRows\<close> and \<open>getDatabaseSize\<close> are discarded), the
  temporary directory and the process id, the outcomes of \<open>os.RemoveAll\<close>, \<open>os.Mkdir\<close>,
  \<open>splitDatabase\<close> and \<open>net.Listen\<close>, and the outcome of \<open>net.Dial\<close> with the local
  address of the connection as a string.
\<close>

record main_env =
  number_of_rows :: int
  page_count :: int
  TempDir :: string
  Getpid :: int
  RemoveAll :: "string \<Rightarrow> error option"
  Mkdir :: "string \<Rightarrow> error option"
  splitDatabase :: "string \<Rightarrow> string list \<Rightarrow> error option"
  Dial :: "error + string"
  Listen :: "string \<Rightarrow> error option"

text \<open>
  \<open>getLocalAddress\<close> (lines 83-99): a failed dial is \<open>log.Fatalf\<close>, an empty address a
  panic.
\<close>

definition getLocalAddress :: "error + string \<Rightarrow> crash + string" where
  "getLocalAddress dial =
     (case dial of
        Inl err \<Rightarrow> Inl (Fatal err)
      | Inr localaddress \<Rightarrow> if localaddress = [] then Inl NoLocalAddress else Inr localaddress)"

text \<open>\<open>net.JoinHostPort\<close>: a host that contains a colon is put in brackets.\<close>

definition JoinHostPort :: "string \<Rightarrow> string \<Rightarrow> string" where
  "JoinHostPort host port =
     (if CHR '':'' \<in> set host then ''['' @ host @ '']:'' @ port else host @ '':'' @ port)"

text \<open>
  \<open>main\<close> from its start to the end of the two loops that build the tasks (lines 365-480),
  with every exit it has on the way: the panic of the division, and \<open>log.Fatalf\<close> after
  \<open>os.RemoveAll\<close>, \<open>os.Mkdir\<close>, \<open>splitDatabase\<close>, in \<open>getLocalAddress\<close> and after
  \<open>net.Listen\<close>. Neither \<open>m\<close> nor \<open>r\<close> is compared with anything but the loop counters.
  \<open>make([]string, m)\<close> is \<open>m\<close> empty strings. The goroutine of lines 446-451 is taken
  to keep serving the files.
\<close>

definition main_tasks ::
  "(string \<Rightarrow> string \<Rightarrow> string) \<Rightarrow> main_env \<Rightarrow> crash + (MapTask list \<times> ReduceTask list)" where
  "main_tasks Join env =
     (let source = ''austen.db'' in
      case go_div (number_of_rows env) (page_count env) of
        Inl c \<Rightarrow> Inl c
      | Inr m \<Rightarrow>
      (case go_div m 2 of
        Inl c \<Rightarrow> Inl c
      | Inr r \<Rightarrow>
      (let tempdir = Join (TempDir env) (''mapreduce.'' @ formatInt (Getpid env)) in
       case RemoveAll env tempdir of
        Some err \<Rightarrow> Inl (Fatal err)
      | None \<Rightarrow>
      (case Mkdir env tempdir of
        Some err \<Rightarrow> Inl (Fatal err)
      | None \<Rightarrow>
      (let paths = createPaths Join m mapSource tempdir in
       case splitDatabase env source paths of
        Some err \<Rightarrow> Inl (Fatal err)
      | None \<Rightarrow>
      (case getLocalAddress (Dial env) of
        Inl c \<Rightarrow> Inl c
      | Inr localaddress \<Rightarrow>
      (let the_address = JoinHostPort localaddress ''8080'' in
       case Listen env the_address of
        Some err \<Rightarrow> Inl (Fatal err)
      | None \<Rightarrow>
          Inr (map (\<lambda>i. \<lparr>M = m, R = r, N = int i, SourceHost = the_address\<rparr>) [0..<nat m],
               map (\<lambda>i. \<lparr>M = m, R = r, N = int i, SourceHosts = replicate (nat m) []\<rparr>)
                 [0..<nat r]))))))))"

section \<open>Specification-level definitions\<close>

text \<open>
  The word-count \<open>Map\<close> in the words of the specification: the normalization of a token
  drops every rune that is not a letter or a digit and lower-cases the rest; one pair
  \<open>(w, "1")\<close> for every token whose normalization \<open>w\<close> is not empty, in token order.
\<close>

definition normalize_spec :: "unicode \<Rightarrow> string \<Rightarrow> string" where
  "normalize_spec U token =
     concat (map (\<lambda>r. EncodeRune (ToLower U r))
       (filter (\<lambda>r. IsLetter U r \<or> IsDigit U r) (map fst (runes token))))"

definition Map_spec :: "unicode \<Rightarrow> string \<Rightarrow> Pair list" where
  "Map_spec U val =
     map (\<lambda>w. \<lparr>Key = w, Value = ''1''\<rparr>)
       (filter (\<lambda>w. w \<noteq> []) (map (normalize_spec U) (strings_Fields U val)))"

text \<open>The values that \<open>Atoi\<close> accepts, and what it reads them as.\<close>

definition parses :: "string \<Rightarrow> bool" where
  "parses v = (case Atoi v of Inl err \<Rightarrow> False | Inr i \<Rightarrow> True)"

definition parsed :: "string \<Rightarrow> int" where
  "parsed v = (case Atoi v of Inl err \<Rightarrow> 0 | Inr i \<Rightarrow> i)"

section \<open>Inputs for running the model\<close>

text \<open>
  The tables of package \<open>unicode\<close> on the ASCII range (no rune beyond it is a space, a
  letter or a digit here), for running the client on ASCII input.
\<close>

definition ascii_tables :: unicode where
  "ascii_tables =
     \<lparr>IsSpace = (\<lambda>r. r = 9 \<or> r = 10 \<or> r = 11 \<or> r = 12 \<or> r = 13 \<or> r = 32),
      IsLetter = (\<lambda>r. (65 \<le> r \<and> r \<le> 90) \<or> (97 \<le> r \<and> r \<le> 122)),
      IsDigit = (\<lambda>r. 48 \<le> r \<and> r \<le> 57),
      ToLower = (\<lambda>r. if 65 \<le> r \<and> r \<le> 90 then r + 32 else r)\<rparr>"

text \<open>Joining a directory and a file name with a slash.\<close>

definition join_slash :: "string \<Rightarrow> string \<Rightarrow> string" where
  "join_slash dir file = dir @ ''/'' @ file"

text \<open>
  Map task 0 of a run with one map task and one reduce task, and its input: one row. In
  \<open>served\<close> the source file is served by the host and nothing is on the local disk; in
  \<open>stale\<close> the host serves nothing and an input file of an earlier run is on the disk
  (\<open>Process\<close> opens \<open>map_0_input.db\<close> in the working directory, not under \<open>path\<close>).
\<close>

definition task0 :: MapTask where
  "task0 = \<lparr>M = 1, R = 1, N = 0, SourceHost = ''h:8080''\<rparr>"

definition row0 :: Pair where
  "row0 = \<lparr>Key = ''doc'', Value = ''The cat''\<rparr>"

definition served :: world where
  "served = \<lparr>disk = Map.empty, net = [''http://h:8080/data/map_0_source.db'' \<mapsto> [row0]]\<rparr>"

definition stale :: world where
  "stale = \<lparr>disk = [''map_0_input.db'' \<mapsto> [row0]], net = Map.empty\<rparr>"

text \<open>Reduce task 0 of the same run, the map task's bucket 0 being served by the host.\<close>

definition rtask0 :: ReduceTask where
  "rtask0 = \<lparr>M = 1, R = 1, N = 0, SourceHosts = [''h:8080'']\<rparr>"

definition shuffled :: world where
  "shuffled = \<lparr>disk = Map.empty,
     net = [''http://h:8080/data/map_0_output_0.db'' \<mapsto>
       [\<lparr>Key = ''the'', Value = ''1''\<rparr>, \<lparr>Key = ''cat'', Value = ''1''\<rparr>,
        \<lparr>Key = ''the'', Value = ''1''\<rparr>]]\<rparr>"

text \<open>
  Two runs of \<open>main\<close> in which nothing outside fails and the local address is
  \<open>10.0.0.7\<close>: the source has one page, with one row in \<open>one_row\<close> and with four rows in
  \<open>four_rows\<close>. In \<open>no_tempdir\<close> the temporary directory cannot be made.
\<close>

definition one_row :: main_env where
  "one_row =
     \<lparr>number_of_rows = 1, page_count = 1, TempDir = ''/tmp'', Getpid = 42,
      RemoveAll = (\<lambda>dir. None), Mkdir = (\<lambda>dir. None),
      splitDatabase = (\<lambda>source paths. None), Dial = Inr ''10.0.0.7'',
      Listen = (\<lambda>address. None)\<rparr>"

definition four_rows :: main_env where
  "four_rows = one_row\<lparr>number_of_rows := 4\<rparr>"

definition no_tempdir :: main_env where
  "no_tempdir = four_rows\<lparr>Mkdir := (\<lambda>dir. Some ErrOS)\<rparr>"

section \<open>The partitioner\<close>

lemma uint_word_of_int_le: "0 < (k::int) \<Longrightarrow> uint (word_of_int k :: 32 word) \<le> k"
  by (simp add: uint_word_of_int zmod_le_nonneg_dividend)

lemma InsertPair_r_Inr:
  assumes "0 < R task" and "\<not> 2 ^ 32 dvd R task"
  shows "InsertPair_r task pair =
           Inr (uint (fnv32_Write offset32 (Key pair) mod word_of_int (R task)))"
    and "uint (fnv32_Write offset32 (Key pair) mod (word_of_int (R task) :: 32 word)) < R task"
proof -
  let ?d = "word_of_int (R task) :: 32 word"
  have d: "?d \<noteq> 0"
    using assms(2) by (simp add: word_of_int_eq_0_iff)
  then show "InsertPair_r task pair = Inr (uint (fnv32_Write offset32 (Key pair) mod ?d))"
    by (simp add: InsertPair_r_def Let_def)
  have "0 < uint ?d"
    using d by (metis uint_0_iff uint_ge_0 order_le_less)
  then have "uint (fnv32_Write offset32 (Key pair) mod ?d) < uint ?d"
    by (simp add: uint_mod)
  also have "\<dots> \<le> R task"
    using assms(1) by (rule uint_word_of_int_le)
  finally show "uint (fnv32_Write offset32 (Key pair) mod ?d) < R task" .
qed

text \<open>
  Claim C6, as the code has it. The bucket index that \<open>InsertPair\<close> computes lies in
  \<open>[0, R)\<close> for every key and every \<open>R > 0\<close> that is not a multiple of \<open>2 ^ 32\<close>, and it
  is the same for every task with that \<open>R\<close> and every pair with that key: it depends on
  the bytes of the key and on \<open>R\<close> only, not on \<open>N\<close> or \<open>M\<close>.
\<close>

theorem InsertPair_r_range:
  assumes "0 < R task" and "\<not> 2 ^ 32 dvd R task"
  shows "(\<exists>r. InsertPair_r task pair = Inr r \<and> 0 \<le> r \<and> r < R task) \<and>
         (\<forall>task' pair'. R task' = R task \<and> Key pair' = Key pair \<longrightarrow>
            InsertPair_r task' pair' = InsertPair_r task pair)"
  using InsertPair_r_Inr [OF assms, of pair] by (auto simp: InsertPair_r_def)

theorem InsertPair_r_range_witness:
  "0 < R \<lparr>M = 2, R = 4, N = 0, SourceHost = ''h''\<rparr> \<and>
   \<not> 2 ^ 32 dvd R \<lparr>M = 2, R = 4, N = 0, SourceHost = ''h''\<rparr> \<and>
   (\<exists>r. InsertPair_r \<lparr>M = 2, R = 4, N = 0, SourceHost = ''h''\<rparr> \<lparr>Key = ''the'', Value = ''1''\<rparr>
          = Inr r \<and> 0 \<le> r \<and> r < 4) \<and>
   InsertPair_r \<lparr>M = 7, R = 4, N = 5, SourceHost = ''g''\<rparr> \<lparr>Key = ''the'', Value = ''2''\<rparr> =
   InsertPair_r \<lparr>M = 2, R = 4, N = 0, SourceHost = ''h''\<rparr> \<lparr>Key = ''the'', Value = ''1''\<rparr>"
proof -
  let ?t = "\<lparr>M = 2, R = 4, N = 0, SourceHost = ''h''\<rparr>"
  let ?p = "\<lparr>Key = ''the'', Value = ''1''\<rparr>"
  let ?t' = "\<lparr>M = 7, R = 4, N = 5, SourceHost = ''g''\<rparr>"
  let ?p' = "\<lparr>Key = ''the'', Value = ''2''\<rparr>"
  have h: "0 < R ?t" "\<not> 2 ^ 32 dvd R ?t"
    by simp_all
  from InsertPair_r_range [OF h, of ?p]
  have a: "\<exists>r. InsertPair_r ?t ?p = Inr r \<and> 0 \<le> r \<and> r < R ?t"
    and b: "\<forall>task' pair'. R (task' :: MapTask) = R ?t \<and> Key pair' = Key ?p \<longrightarrow>
              InsertPair_r task' pair' = InsertPair_r ?t ?p"
    by blast+
  from b [rule_format, of ?t' ?p'] have "InsertPair_r ?t' ?p' = InsertPair_r ?t ?p"
    by simp
  with a h show ?thesis
    by simp
qed

text \<open>
  Claim C6 as stated fails: \<open>R = 2 ^ 32\<close> is positive, \<open>uint32(task.R)\<close> is 0, and the
  modulo panics instead of giving an index.
\<close>

theorem InsertPair_r_counterexample:
  "0 < R \<lparr>M = 1, R = 4294967296, N = 0, SourceHost = ''h''\<rparr> \<and>
   InsertPair_r \<lparr>M = 1, R = 4294967296, N = 0, SourceHost = ''h''\<rparr> \<lparr>Key = ''the'', Value = ''1''\<rparr>
     = Inl DivideByZero"
  by (simp add: InsertPair_r_def)

section \<open>InsertPair\<close>

lemma getDatabase_rows:
  "getDatabase p w =
     (Inr p, w\<lparr>disk := (disk w)(p \<mapsto> (case disk w p of None \<Rightarrow> [] | Some rows \<Rightarrow> rows))\<rparr>)"
  by (cases "disk w p")
    (simp_all add: getDatabase_def createDatabase_def openDatabase_def fun_upd_idem)

lemma InsertPair_Inr:
  assumes "InsertPair_r task pair = Inr r"
  shows "InsertPair Join task path pair w =
     Inr (None, w\<lparr>disk := (disk w)(Join path (mapOutputFile (N task) r) \<mapsto>
            (case disk w (Join path (mapOutputFile (N task) r)) of
               None \<Rightarrow> [] | Some rows \<Rightarrow> rows) @ [pair])\<rparr>)"
  by (simp add: InsertPair_def Let_def assms getDatabase_rows db_Exec_insert_def)

lemma InsertPair_Inl:
  assumes "InsertPair_r task pair = Inl c"
  shows "InsertPair Join task path pair w = Inl c"
  by (simp add: InsertPair_def assms)

text \<open>
  Claim C7, as the code has it. For \<open>R > 0\<close> not a multiple of \<open>2 ^ 32\<close>, \<open>InsertPair\<close>
  returns \<open>nil\<close>, and afterwards the store \<open>map_<N>_output_<r>.db\<close> under \<open>path\<close>, with
  \<open>r\<close> the bucket index of the key, holds its former rows (none if it did not exist) followed by
  the pair; every other file is as it was.
\<close>

theorem InsertPair_appends:
  assumes "0 < R task" and "\<not> 2 ^ 32 dvd R task"
  shows "\<exists>r w'. InsertPair_r task pair = Inr r \<and>
           InsertPair Join task path pair w = Inr (None, w') \<and>
           disk w' (Join path (mapOutputFile (N task) r)) =
             Some ((case disk w (Join path (mapOutputFile (N task) r)) of
                      None \<Rightarrow> [] | Some rows \<Rightarrow> rows) @ [pair]) \<and>
           (\<forall>file. file \<noteq> Join path (mapOutputFile (N task) r) \<longrightarrow> disk w' file = disk w file) \<and>
           net w' = net w"
proof -
  from InsertPair_r_Inr(1) [OF assms, of pair] obtain r where r: "InsertPair_r task pair = Inr r"
    by blast
  show ?thesis
    by (rule exI [of _ r]) (simp add: r InsertPair_Inr [OF r])
qed

theorem InsertPair_appends_witness:
  "0 < R \<lparr>M = 2, R = 4, N = 3, SourceHost = ''h''\<rparr> \<and>
   \<not> 2 ^ 32 dvd R \<lparr>M = 2, R = 4, N = 3, SourceHost = ''h''\<rparr> \<and>
   (\<exists>w'. InsertPair join_slash \<lparr>M = 2, R = 4, N = 3, SourceHost = ''h''\<rparr> ''tmp''
            \<lparr>Key = ''the'', Value = ''1''\<rparr> \<lparr>disk = Map.empty, net = Map.empty\<rparr> = Inr (None, w') \<and>
         disk w' ''tmp/map_3_output_2.db'' = Some [\<lparr>Key = ''the'', Value = ''1''\<rparr>])"
proof -
  let ?t = "\<lparr>M = 2, R = 4, N = 3, SourceHost = ''h''\<rparr>"
  let ?p = "\<lparr>Key = ''the'', Value = ''1''\<rparr>"
  let ?w = "\<lparr>disk = Map.empty, net = Map.empty\<rparr>"
  have h: "0 < R ?t" "\<not> 2 ^ 32 dvd R ?t"
    by simp_all
  from InsertPair_appends [OF h, of ?p join_slash "''tmp''" ?w]
  obtain r w' where r: "InsertPair_r ?t ?p = Inr r"
    and w': "InsertPair join_slash ?t ''tmp'' ?p ?w = Inr (None, w')"
    and d: "disk w' (join_slash ''tmp'' (mapOutputFile (N ?t) r)) =
             Some ((case disk ?w (join_slash ''tmp'' (mapOutputFile (N ?t) r)) of
                      None \<Rightarrow> [] | Some rows \<Rightarrow> rows) @ [?p])"
    by blast
  have "InsertPair_r ?t ?p = Inr 2"
    by (simp add: InsertPair_r_def offset32_def prime32_def)
  with r have "r = 2"
    by simp
  moreover have "join_slash ''tmp'' (mapOutputFile 3 2) = ''tmp/map_3_output_2.db''"
    by (simp add: join_slash_def mapOutputFile_def formatInt_def formatNat.simps digit_def)
  ultimately have "disk w' ''tmp/map_3_output_2.db'' = Some [?p]"
    using d by simp
  with w' h show ?thesis
    by blast
qed

text \<open>
  Claim C7 as stated fails for the same \<open>R = 2 ^ 32\<close>: \<open>InsertPair\<close> panics and appends
  the pair to no store.
\<close>

theorem InsertPair_appends_counterexample:
  "0 < R \<lparr>M = 1, R = 4294967296, N = 0, SourceHost = ''h''\<rparr> \<and>
   InsertPair join_slash \<lparr>M = 1, R = 4294967296, N = 0, SourceHost = ''h''\<rparr> ''tmp''
     \<lparr>Key = ''the'', Value = ''1''\<rparr> \<lparr>disk = Map.empty, net = Map.empty\<rparr> = Inl DivideByZero"
  by (simp add: InsertPair_def InsertPair_r_def)

section \<open>The word-count Reduce\<close>

lemma wrap64_wrap64_add: "wrap64 (wrap64 a + b) = wrap64 (a + b)"
  by (simp add: wrap64_def mod_simps algebra_simps)

lemma wrap64_id: "- (2 ^ 63) \<le> i \<Longrightarrow> i < 2 ^ 63 \<Longrightarrow> wrap64 i = i"
  by (simp add: wrap64_def)

lemma Reduce_loop_parses:
  "\<forall>v\<in>set vs. parses v \<Longrightarrow>
   Reduce_loop c vs = Inr (if vs = [] then c else wrap64 (c + sum_list (map parsed vs)))"
proof (induction vs arbitrary: c)
  case Nil
  then show ?case by simp
next
  case (Cons v vs)
  from Cons.prems obtain i where i: "Atoi v = Inr i"
    by (auto simp: parses_def split: sum.splits)
  then have p: "parsed v = i"
    by (simp add: parsed_def)
  from Cons.prems have "\<forall>v\<in>set vs. parses v"
    by simp
  from Cons.IH [OF this, of "wrap64 (c + i)"] show ?case
    by (simp add: i p wrap64_wrap64_add add.assoc)
qed

lemma Reduce_loop_fails:
  "\<exists>v\<in>set vs. \<not> parses v \<Longrightarrow> \<exists>err. Reduce_loop c vs = Inl err"
proof (induction vs arbitrary: c)
  case Nil
  then show ?case by simp
next
  case (Cons v vs)
  show ?case
  proof (cases "Atoi v")
    case (Inl err)
    then show ?thesis by simp
  next
    case (Inr i)
    then have "parses v"
      by (simp add: parses_def)
    with Cons.prems have "\<exists>v\<in>set vs. \<not> parses v"
      by simp
    from Cons.IH [OF this] show ?thesis
      by (simp add: Inr)
  qed
qed

text \<open>
  Claim C9, as the code has it. If every value parses, \<open>Reduce\<close> sends exactly one pair
  \<open>(key, s)\<close> and returns \<open>nil\<close>, where \<open>s\<close> is the decimal representation of the sum of
  the parsed values wrapped to 64 bits, which is the sum itself whenever the sum fits in 64
  bits. If some value does not parse, \<open>Reduce\<close> returns an error and sends no pair.
\<close>

theorem Client_Reduce_sum:
  "((\<forall>v\<in>set vs. parses v) \<longrightarrow>
      Client_Reduce key vs =
        ([\<lparr>Key = key, Value = formatInt (wrap64 (sum_list (map parsed vs)))\<rparr>], None) \<and>
      (- (2 ^ 63) \<le> sum_list (map parsed vs) \<and> sum_list (map parsed vs) < 2 ^ 63 \<longrightarrow>
         Client_Reduce key vs =
           ([\<lparr>Key = key, Value = formatInt (sum_list (map parsed vs))\<rparr>], None))) \<and>
   ((\<exists>v\<in>set vs. \<not> parses v) \<longrightarrow> (\<exists>err. Client_Reduce key vs = ([], Some err)))"
proof (intro conjI impI)
  assume a: "\<forall>v\<in>set vs. parses v"
  have w0: "wrap64 0 = 0"
    by (simp add: wrap64_def)
  show r: "Client_Reduce key vs =
        ([\<lparr>Key = key, Value = formatInt (wrap64 (sum_list (map parsed vs)))\<rparr>], None)"
    by (simp add: Client_Reduce_def Reduce_loop_parses [OF a] w0)
  assume "- (2 ^ 63) \<le> sum_list (map parsed vs) \<and> sum_list (map parsed vs) < 2 ^ 63"
  then show "Client_Reduce key vs =
           ([\<lparr>Key = key, Value = formatInt (sum_list (map parsed vs))\<rparr>], None)"
    using r by (simp add: wrap64_id)
next
  assume "\<exists>v\<in>set vs. \<not> parses v"
  from Reduce_loop_fails [OF this, of 0] show "\<exists>err. Client_Reduce key vs = ([], Some err)"
    by (auto simp: Client_Reduce_def)
qed

theorem Client_Reduce_sum_witness:
  "parses ''2'' \<and> parses ''-1'' \<and> parses ''+40'' \<and>
   - (2 ^ 63) \<le> sum_list (map parsed [''2'', ''-1'', ''+40'']) \<and>
   sum_list (map parsed [''2'', ''-1'', ''+40'']) < 2 ^ 63 \<and>
   Client_Reduce ''the'' [''2'', ''-1'', ''+40''] = ([\<lparr>Key = ''the'', Value = ''41''\<rparr>], None) \<and>
   (\<exists>v\<in>set [''1'', ''one'']. \<not> parses v) \<and>
   (\<exists>err. Client_Reduce ''the'' [''1'', ''one''] = ([], Some err))"
proof -
  have p: "\<forall>v\<in>set [''2'', ''-1'', ''+40'']. parses v"
    by (simp add: parses_def Atoi_def)
  have s: "sum_list (map parsed [''2'', ''-1'', ''+40'']) = 41"
    by (simp add: parsed_def Atoi_def)
  have f: "formatInt 41 = ''41''"
    by (simp add: formatInt_def formatNat.simps digit_def)
  have n: "\<exists>v\<in>set [''1'', ''one'']. \<not> parses v"
    by (simp add: parses_def Atoi_def)
  have w: "wrap64 41 = 41"
    by (simp add: wrap64_def)
  from Client_Reduce_sum [of "[''2'', ''-1'', ''+40'']" "''the''"] p s f w
  have "Client_Reduce ''the'' [''2'', ''-1'', ''+40''] = ([\<lparr>Key = ''the'', Value = ''41''\<rparr>], None)"
    by simp
  moreover from Client_Reduce_sum [of "[''1'', ''one'']" "''the''"] n
  have "\<exists>err. Client_Reduce ''the'' [''1'', ''one''] = ([], Some err)"
    by blast
  ultimately show ?thesis
    using p n s by simp
qed

text \<open>
  Claim C9 as stated fails: both values parse, their sum is \<open>2 ^ 63\<close>, and the pair sent
  carries the decimal representation of \<open>- (2 ^ 63)\<close>.
\<close>

theorem Client_Reduce_counterexample:
  "parses ''9223372036854775807'' \<and> parsed ''9223372036854775807'' = 9223372036854775807 \<and>
   parses ''1'' \<and> parsed ''1'' = 1 \<and>
   formatInt (9223372036854775807 + 1) = ''9223372036854775808'' \<and>
   Client_Reduce ''the'' [''9223372036854775807'', ''1''] =
     ([\<lparr>Key = ''the'', Value = ''-9223372036854775808''\<rparr>], None)"
  by (simp add: parses_def parsed_def Atoi_def Client_Reduce_def wrap64_def formatInt_def
      formatNat.simps digit_def)

section \<open>The word-count Map\<close>

lemma DecodeRuneInString_nonneg: "0 \<le> fst (DecodeRuneInString s)"
  by (simp add: DecodeRuneInString_def RuneError_def Let_def)

lemma runes_nonneg: "(r, bytes) \<in> set (runes s) \<Longrightarrow> 0 \<le> r"
proof (induction s rule: runes.induct)
  case (1 s)
  show ?case
  proof (cases "s = []")
    case True
    with "1.prems" show ?thesis
      by (simp add: runes.simps)
  next
    case False
    obtain c width where d: "DecodeRuneInString s = (c, width)"
      by (cases "DecodeRuneInString s")
    from "1.prems" False d
    have "(r, bytes) = (c, take width s) \<or> (r, bytes) \<in> set (runes (drop width s))"
      by (subst (asm) runes.simps) simp
    then show ?thesis
    proof
      assume "(r, bytes) = (c, take width s)"
      with DecodeRuneInString_nonneg [of s] d show ?thesis
        by simp
    next
      assume "(r, bytes) \<in> set (runes (drop width s))"
      from "1.IH" [OF False d [symmetric] refl this] show ?thesis .
    qed
  qed
qed

lemma concat_mapped_runes:
  assumes "\<forall>r. 0 \<le> r \<longrightarrow> 0 \<le> ToLower U r"
    and "\<forall>(r, bytes) \<in> set rs. 0 \<le> r"
  shows "concat (map (\<lambda>(c, bytes). let r = Map_mapping U c in if 0 \<le> r then EncodeRune r else [])
           rs) =
         concat (map (\<lambda>r. EncodeRune (ToLower U r))
           (filter (\<lambda>r. IsLetter U r \<or> IsDigit U r) (map fst rs)))"
  using assms(2)
proof (induction rs)
  case Nil
  then show ?case by simp
next
  case (Cons x rs)
  obtain c bytes where x: "x = (c, bytes)"
    by (cases x)
  with Cons.prems have c: "0 \<le> c"
    by simp
  with assms(1) have "0 \<le> ToLower U c"
    by simp
  with Cons x show ?case
    by (simp add: Map_mapping_def)
qed

lemma strings_Map_normalize:
  assumes "\<forall>r. 0 \<le> r \<longrightarrow> 0 \<le> ToLower U r"
  shows "strings_Map (Map_mapping U) = normalize_spec U"
proof
  fix token
  show "strings_Map (Map_mapping U) token = normalize_spec U token"
    unfolding strings_Map_def normalize_spec_def
    by (rule concat_mapped_runes [OF assms]) (auto dest: runes_nonneg)
qed

lemma Map_loop_filter:
  "Map_loop U lst out =
     out @ map (\<lambda>w. \<lparr>Key = w, Value = ''1''\<rparr>)
       (filter (\<lambda>w. w \<noteq> []) (map (strings_Map (Map_mapping U)) lst))"
  by (induction lst arbitrary: out) (simp_all add: Let_def)

text \<open>
  Claim C8. For every input \<open>(key, value)\<close> the word-count \<open>Map\<close> sends exactly one pair
  \<open>(w, "1")\<close> for each field of \<open>strings.Fields(value)\<close> whose normalization \<open>w\<close> (every
  rune that is not a letter or a digit dropped, the rest lower-cased) is not empty, in the
  order of the fields, nothing for the other fields, and it returns \<open>nil\<close>. The one
  property of the tables that is used: \<open>unicode.ToLower\<close> of a rune is not negative.
\<close>

theorem Client_Map_tokens:
  assumes "\<forall>r. 0 \<le> r \<longrightarrow> 0 \<le> ToLower U r"
  shows "Client_Map U key val = (Map_spec U val, None)"
  by (simp add: Client_Map_def Map_spec_def Map_loop_filter strings_Map_normalize [OF assms])

theorem Client_Map_tokens_witness:
  "Client_Map ascii_tables ''doc'' ''the cat sat. The CAT sat! --'' =
     ([\<lparr>Key = ''the'', Value = ''1''\<rparr>, \<lparr>Key = ''cat'', Value = ''1''\<rparr>,
       \<lparr>Key = ''sat'', Value = ''1''\<rparr>, \<lparr>Key = ''the'', Value = ''1''\<rparr>,
       \<lparr>Key = ''cat'', Value = ''1''\<rparr>, \<lparr>Key = ''sat'', Value = ''1''\<rparr>], None)"
proof -
  have h: "\<forall>r. 0 \<le> r \<longrightarrow> 0 \<le> ToLower ascii_tables r"
    by (simp add: ascii_tables_def)
  have "Map_spec ascii_tables ''the cat sat. The CAT sat! --'' =
     [\<lparr>Key = ''the'', Value = ''1''\<rparr>, \<lparr>Key = ''cat'', Value = ''1''\<rparr>,
       \<lparr>Key = ''sat'', Value = ''1''\<rparr>, \<lparr>Key = ''the'', Value = ''1''\<rparr>,
       \<lparr>Key = ''cat'', Value = ''1''\<rparr>, \<lparr>Key = ''sat'', Value = ''1''\<rparr>]"
    by code_simp
  with Client_Map_tokens [OF h, of "''doc''" "''the cat sat. The CAT sat! --''"]
  show ?thesis
    by simp
qed

section \<open>MapTask.Process\<close>

lemma names0:
  "mapSourceFile 0 = ''map_0_source.db''"
  "mapInputFile 0 = ''map_0_input.db''"
  "mapOutputFile 0 0 = ''map_0_output_0.db''"
  "reduceInputFile 0 = ''reduce_0_input.db''"
  "reduceOutputFile 0 = ''reduce_0_output.db''"
  "reduceTempFile 0 = ''reduce_0_temp.db''"
  by (simp_all add: mapSourceFile_def mapInputFile_def mapOutputFile_def reduceInputFile_def
      reduceOutputFile_def reduceTempFile_def formatInt_def formatNat.simps digit_def)

lemma Process_served:
  "MapTask_Process task0 ''tmp'' client served =
     (None, [ScanRows [row0]], served\<lparr>disk := [''map_0_input.db'' \<mapsto> [row0]]\<rparr>)"
  by (simp add: MapTask_Process_def task0_def served_def names0 makeURL_def download_def
      openDatabase_def db_Query_def)

lemma Map_row0:
  "Client_Map ascii_tables ''doc'' ''The cat'' =
     ([\<lparr>Key = ''the'', Value = ''1''\<rparr>, \<lparr>Key = ''cat'', Value = ''1''\<rparr>], None)"
  by code_simp

lemma InsertPair_r_task0: "InsertPair_r task0 pair = Inr 0"
  by (simp add: InsertPair_r_def task0_def)

lemma scan_served:
  "run_goroutine join_slash ''tmp'' (Client ascii_tables) (ScanRows [row0]) task0
     (served\<lparr>disk := [''map_0_input.db'' \<mapsto> [row0]]\<rparr>) =
   Inr (task0\<lparr>M := 2\<rparr>,
        served\<lparr>disk := [''map_0_input.db'' \<mapsto> [row0],
           ''tmp/map_0_output_0.db'' \<mapsto>
             [\<lparr>Key = ''the'', Value = ''1''\<rparr>, \<lparr>Key = ''cat'', Value = ''1''\<rparr>]]\<rparr>)"
proof -
  have n: "N task0 = 0" "M task0 = 1"
    by (simp_all add: task0_def)
  have w: "wrap64 2 = 2"
    by (simp add: wrap64_def)
  have k: "Key row0 = ''doc''" "Value row0 = ''The cat''"
    by (simp_all add: row0_def)
  show ?thesis
    by (simp add: Client_def k Map_row0 InsertPair_Inr [OF InsertPair_r_task0]
        n w names0 join_slash_def)
qed

text \<open>
  What the goroutine does to the task, whatever the rows and the client: \<open>R\<close>, \<open>N\<close> and
  \<open>SourceHost\<close> stay, \<open>M\<close> grows by the number of rows.
\<close>

lemma scan_loop_fields:
  "scan_loop Join path client rows task w = Inr (task', w') \<Longrightarrow>
   R task' = R task \<and> N task' = N task \<and> SourceHost task' = SourceHost task \<and>
   wrap64 (M task') = wrap64 (M task + int (length rows))"
proof (induction rows arbitrary: task w)
  case Nil
  then show ?case by simp
next
  case (Cons row rows)
  from Cons.prems obtain w1 where
    "scan_loop Join path client rows (task\<lparr>M := wrap64 (M task + 1)\<rparr>) w1 = Inr (task', w')"
    by (auto simp: Let_def split: prod.splits sum.splits)
  from Cons.IH [OF this] show ?case
    by (simp add: wrap64_wrap64_add add.assoc)
qed

text \<open>
  Claim C2 does not hold of the code. On the served input, \<open>Process\<close> returns \<open>nil\<close>
  with the goroutine that scans the rows started and not waited for, and with no bucket
  store written yet; the two pairs of the row reach their bucket only when that goroutine
  runs.
\<close>

theorem MapTask_Process_returns_early:
  "MapTask_Process task0 ''tmp'' (Client ascii_tables) served =
     (None, [ScanRows [row0]], served\<lparr>disk := [''map_0_input.db'' \<mapsto> [row0]]\<rparr>) \<and>
   disk (served\<lparr>disk := [''map_0_input.db'' \<mapsto> [row0]]\<rparr>) ''tmp/map_0_output_0.db'' = None \<and>
   (\<exists>task' w'. run_goroutine join_slash ''tmp'' (Client ascii_tables) (ScanRows [row0]) task0
        (served\<lparr>disk := [''map_0_input.db'' \<mapsto> [row0]]\<rparr>) = Inr (task', w') \<and>
      disk w' ''tmp/map_0_output_0.db'' =
        Some [\<lparr>Key = ''the'', Value = ''1''\<rparr>, \<lparr>Key = ''cat'', Value = ''1''\<rparr>])"
  by (simp add: Process_served scan_served del: run_goroutine.simps)

text \<open>
  Claim C3 does not hold of the code. The task is built with \<open>M = 1\<close>; once the goroutine
  that \<open>Process\<close> started has scanned the one row, the task carries \<open>M = 2\<close>. \<open>R\<close> and
  \<open>N\<close> are as before.
\<close>

theorem MapTask_Process_increments_M:
  "M task0 = 1 \<and>
   (\<exists>gs w1 task' w'.
      MapTask_Process task0 ''tmp'' (Client ascii_tables) served = (None, gs, w1) \<and>
      run_goroutine join_slash ''tmp'' (Client ascii_tables) (hd gs) task0 w1 = Inr (task', w') \<and>
      M task' = 2 \<and> R task' = R task0 \<and> N task' = N task0)"
proof -
  have "M task0 = 1"
    by (simp add: task0_def)
  then show ?thesis
    by (simp add: Process_served scan_served del: run_goroutine.simps)
qed

text \<open>
  Claim C4 does not hold of the code. On the stale input the download fails, and
  \<open>Process\<close> goes on past it: it opens the input file that is on the disk, starts the
  goroutine on its rows and returns \<open>nil\<close>.
\<close>

theorem MapTask_Process_ignores_download:
  "download (makeURL (SourceHost task0) (mapSourceFile (N task0))) (mapInputFile (N task0)) stale =
     (Some ErrDownload, stale) \<and>
   MapTask_Process task0 ''tmp'' (Client ascii_tables) stale = (None, [ScanRows [row0]], stale)"
  by (simp add: MapTask_Process_def task0_def stale_def names0 makeURL_def download_def
      openDatabase_def db_Query_def)

section \<open>ReduceTask.Process\<close>

lemma Process_urls_in_bounds:
  "0 \<le> m \<Longrightarrow> M task \<le> int (length (SourceHosts task)) \<Longrightarrow>
   Process_urls task m acc =
     Inr (acc @ map (\<lambda>k. makeURL (SourceHosts task ! k) (mapOutputFile (int k) (N task)))
                  [nat m..<nat (M task)])"
proof (induction task m acc rule: Process_urls.induct)
  case (1 task m acc)
  show ?case
  proof (cases "m < M task")
    case True
    with "1.prems" have b: "0 \<le> m \<and> m < int (length (SourceHosts task))"
      by simp
    have u: "[nat m..<nat (M task)] = nat m # [nat (m + 1)..<nat (M task)]"
      using True "1.prems"(1) by (simp add: upt_conv_Cons nat_add_distrib)
    from "1.IH" [OF True b refl refl] "1.prems" True b show ?thesis
      by (subst Process_urls.simps) (simp add: u)
  next
    case False
    then show ?thesis
      by (subst Process_urls.simps) simp
  qed
qed

lemma Process_urls_out_of_range:
  "0 \<le> m \<Longrightarrow> m \<le> int (length (SourceHosts task)) \<Longrightarrow>
   int (length (SourceHosts task)) < M task \<Longrightarrow>
   Process_urls task m acc = Inl IndexOutOfRange"
proof (induction task m acc rule: Process_urls.induct)
  case (1 task m acc)
  from "1.prems" have lt: "m < M task"
    by simp
  show ?case
  proof (cases "m < int (length (SourceHosts task))")
    case True
    with "1.prems" have b: "0 \<le> m \<and> m < int (length (SourceHosts task))"
      by simp
    from "1.IH" [OF lt b refl refl] "1.prems" True lt b show ?thesis
      by (subst Process_urls.simps) simp
  next
    case False
    with lt show ?thesis
      by (subst Process_urls.simps) simp
  qed
qed

text \<open>
  Claim C10. If the task carries at least \<open>M\<close> source hosts, every \<open>SourceHosts[m]\<close> of
  the loop is in bounds: the loop ends with the \<open>M\<close> URLs and \<open>Process\<close> does not panic on
  an index. If it carries fewer than \<open>M\<close>, \<open>Process\<close> panics on the index; it does not
  return an error.
\<close>

theorem ReduceTask_Process_SourceHosts:
  "(M task \<le> int (length (SourceHosts task)) \<longrightarrow>
      Process_urls task 0 [] =
        Inr (map (\<lambda>m. makeURL (SourceHosts task ! m) (mapOutputFile (int m) (N task)))
               [0..<nat (M task)]) \<and>
      ReduceTask_Process mergeDatabases task path client w \<noteq> Inl IndexOutOfRange) \<and>
   (int (length (SourceHosts task)) < M task \<longrightarrow>
      ReduceTask_Process mergeDatabases task path client w = Inl IndexOutOfRange)"
proof (intro conjI impI)
  assume a: "M task \<le> int (length (SourceHosts task))"
  from Process_urls_in_bounds [OF _ a, of 0 "[]"]
  show u: "Process_urls task 0 [] =
        Inr (map (\<lambda>m. makeURL (SourceHosts task ! m) (mapOutputFile (int m) (N task)))
               [0..<nat (M task)])"
    by simp
  show "ReduceTask_Process mergeDatabases task path client w \<noteq> Inl IndexOutOfRange"
    by (simp add: ReduceTask_Process_def u split: prod.splits sum.splits)
next
  assume "int (length (SourceHosts task)) < M task"
  from Process_urls_out_of_range [OF _ _ this, of 0 "[]"]
  show "ReduceTask_Process mergeDatabases task path client w = Inl IndexOutOfRange"
    by (simp add: ReduceTask_Process_def)
qed

theorem ReduceTask_Process_SourceHosts_witness:
  "M \<lparr>M = 2, R = 1, N = 0, SourceHosts = [''a:8080'', ''b:8080'']\<rparr>
     \<le> int (length (SourceHosts \<lparr>M = 2, R = 1, N = 0, SourceHosts = [''a:8080'', ''b:8080'']\<rparr>)) \<and>
   Process_urls \<lparr>M = 2, R = 1, N = 0, SourceHosts = [''a:8080'', ''b:8080'']\<rparr> 0 [] =
     Inr [''http://a:8080/data/map_0_output_0.db'', ''http://b:8080/data/map_1_output_0.db''] \<and>
   int (length (SourceHosts \<lparr>M = 2, R = 1, N = 0, SourceHosts = [''a:8080'']\<rparr>))
     < M \<lparr>M = 2, R = 1, N = 0, SourceHosts = [''a:8080'']\<rparr> \<and>
   ReduceTask_Process mergeDatabases_spec \<lparr>M = 2, R = 1, N = 0, SourceHosts = [''a:8080'']\<rparr>
     ''tmp'' (Client ascii_tables) \<lparr>disk = Map.empty, net = Map.empty\<rparr> = Inl IndexOutOfRange"
proof -
  let ?t = "\<lparr>M = 2, R = 1, N = 0, SourceHosts = [''a:8080'', ''b:8080'']\<rparr>"
  let ?s = "\<lparr>M = 2, R = 1, N = 0, SourceHosts = [''a:8080'']\<rparr>"
  have h: "M ?t \<le> int (length (SourceHosts ?t))"
    by simp
  have g: "int (length (SourceHosts ?s)) < M ?s"
    by simp
  have n: "[0..<2] = [0, Suc 0]"
    by (simp add: upt_conv_Cons)
  have f: "mapOutputFile 0 0 = ''map_0_output_0.db''" "mapOutputFile 1 0 = ''map_1_output_0.db''"
    by (simp_all add: mapOutputFile_def formatInt_def formatNat.simps digit_def)
  from ReduceTask_Process_SourceHosts [of ?t mergeDatabases_spec "''tmp''"
      "Client ascii_tables" "\<lparr>disk = Map.empty, net = Map.empty\<rparr>"] h
  have "Process_urls ?t 0 [] =
          Inr (map (\<lambda>m. makeURL (SourceHosts ?t ! m) (mapOutputFile (int m) (N ?t)))
                 [0..<nat (M ?t)])"
    by blast
  then have "Process_urls ?t 0 [] =
     Inr [''http://a:8080/data/map_0_output_0.db'', ''http://b:8080/data/map_1_output_0.db'']"
    by (simp add: n f makeURL_def)
  moreover from ReduceTask_Process_SourceHosts [of ?s mergeDatabases_spec "''tmp''"
      "Client ascii_tables" "\<lparr>disk = Map.empty, net = Map.empty\<rparr>"] g
  have "ReduceTask_Process mergeDatabases_spec ?s ''tmp'' (Client ascii_tables)
          \<lparr>disk = Map.empty, net = Map.empty\<rparr> = Inl IndexOutOfRange"
    by blast
  ultimately show ?thesis
    using h g by blast
qed

lemma sort_shuffled:
  "sort_key (\<lambda>p. (Key p, Value p))
     [\<lparr>Key = ''the'', Value = ''1''\<rparr>, \<lparr>Key = ''cat'', Value = ''1''\<rparr>,
      \<lparr>Key = ''the'', Value = ''1''\<rparr>] =
   [\<lparr>Key = ''cat'', Value = ''1''\<rparr>, \<lparr>Key = ''the'', Value = ''1''\<rparr>,
    \<lparr>Key = ''the'', Value = ''1''\<rparr>]"
  by code_simp

lemma Process_urls_rtask0:
  "Process_urls rtask0 0 [] = Inr [''http://h:8080/data/map_0_output_0.db'']"
  by (simp add: Process_urls.simps rtask0_def names0 makeURL_def)

text \<open>The result of \<open>Process\<close> is the same for every client: none of it is called.\<close>

lemma ReduceTask_Process_client:
  "ReduceTask_Process mergeDatabases task path client w =
   ReduceTask_Process mergeDatabases task path client' w"
  by (simp add: ReduceTask_Process_def)

text \<open>
  Claim C1 does not hold of the code. The bucket of reduce task 0 holds the key
  \<open>the\<close> twice and the key \<open>cat\<close> once. \<open>Process\<close> merges it into the reduce input
  store and returns \<open>nil\<close>: the reducer, which would send \<open>(the, 2)\<close> for the values of \<open>the\<close>,
  is not called, and there is no output store afterwards.
\<close>

theorem ReduceTask_Process_no_Reduce:
  "ReduceTask_Process mergeDatabases_spec rtask0 ''tmp'' (Client ascii_tables) shuffled =
     Inr (None, shuffled\<lparr>disk := [''reduce_0_input.db'' \<mapsto>
       [\<lparr>Key = ''cat'', Value = ''1''\<rparr>, \<lparr>Key = ''the'', Value = ''1''\<rparr>,
        \<lparr>Key = ''the'', Value = ''1''\<rparr>]]\<rparr>) \<and>
   Reduce (Client ascii_tables) ''the'' [''1'', ''1''] = ([\<lparr>Key = ''the'', Value = ''2''\<rparr>], None) \<and>
   reduceOutputFile (N rtask0) = ''reduce_0_output.db'' \<and>
   disk (shuffled\<lparr>disk := [''reduce_0_input.db'' \<mapsto>
       [\<lparr>Key = ''cat'', Value = ''1''\<rparr>, \<lparr>Key = ''the'', Value = ''1''\<rparr>,
        \<lparr>Key = ''the'', Value = ''1''\<rparr>]]\<rparr>) ''reduce_0_output.db'' = None \<and>
   disk (shuffled\<lparr>disk := [''reduce_0_input.db'' \<mapsto>
       [\<lparr>Key = ''cat'', Value = ''1''\<rparr>, \<lparr>Key = ''the'', Value = ''1''\<rparr>,
        \<lparr>Key = ''the'', Value = ''1''\<rparr>]]\<rparr>) (join_slash ''tmp'' ''reduce_0_output.db'') = None"
proof -
  have n: "N rtask0 = 0"
    by (simp add: rtask0_def)
  have "Reduce (Client ascii_tables) ''the'' [''1'', ''1''] = ([\<lparr>Key = ''the'', Value = ''2''\<rparr>], None)"
    by (simp add: Client_def Client_Reduce_def Atoi_def wrap64_def formatInt_def
        formatNat.simps digit_def)
  moreover have
    "ReduceTask_Process mergeDatabases_spec rtask0 ''tmp'' (Client ascii_tables) shuffled =
     Inr (None, shuffled\<lparr>disk := [''reduce_0_input.db'' \<mapsto>
       [\<lparr>Key = ''cat'', Value = ''1''\<rparr>, \<lparr>Key = ''the'', Value = ''1''\<rparr>,
        \<lparr>Key = ''the'', Value = ''1''\<rparr>]]\<rparr>)"
    by (simp add: ReduceTask_Process_def Process_urls_rtask0 n names0 mergeDatabases_spec_def
        shuffled_def sort_shuffled)
  ultimately show ?thesis
    by (simp add: n names0 join_slash_def)
qed

section \<open>The tasks built by main\<close>

lemma wrap64_range: "- (2 ^ 63) \<le> wrap64 i \<and> wrap64 i < 2 ^ 63"
proof -
  have "0 \<le> (i + 2 ^ 63) mod (2 ^ 64 :: int)" "(i + 2 ^ 63) mod (2 ^ 64 :: int) < 2 ^ 64"
    by simp_all
  then show ?thesis
    by (simp add: wrap64_def)
qed

lemma go_div_range: "go_div a b = Inr m \<Longrightarrow> - (2 ^ 63) \<le> m \<and> m < 2 ^ 63"
  using wrap64_range by (auto simp: go_div_def split: if_splits)

lemma go_div_2:
  assumes "- (2 ^ 63) \<le> m" and "m < 2 ^ 63" and "go_div m 2 = Inr r"
  shows "(0 < m \<longrightarrow> r = m div 2) \<and> (m \<le> 0 \<longrightarrow> r \<le> 0)"
proof (intro conjI impI)
  assume p: "0 < m"
  then have "sgn m * sgn 2 * (\<bar>m\<bar> div \<bar>2\<bar>) = m div 2"
    by simp
  moreover from p assms(2) have "wrap64 (m div 2) = m div 2"
    by (intro wrap64_id) simp_all
  ultimately show "r = m div 2"
    using assms(3) by (simp add: go_div_def)
next
  assume n: "m \<le> 0"
  then have e: "sgn m * sgn 2 * (\<bar>m\<bar> div \<bar>2\<bar>) = - ((- m) div 2)"
    by (cases "m = 0") simp_all
  from n assms(1) have "wrap64 (- ((- m) div 2)) = - ((- m) div 2)"
    by (intro wrap64_id) simp_all
  with e assms(3) have "r = - ((- m) div 2)"
    by (simp add: go_div_def)
  with n show "r \<le> 0"
    by simp
qed

text \<open>What \<open>main\<close> has passed when it returns the tasks.\<close>

lemma main_tasks_Inr:
  assumes "main_tasks Join env = Inr (mapTasks, reduceTasks)"
  shows "\<exists>m r localaddress.
           go_div (number_of_rows env) (page_count env) = Inr m \<and> go_div m 2 = Inr r \<and>
           Dial env = Inr localaddress \<and> localaddress \<noteq> [] \<and>
           mapTasks = map (\<lambda>i. \<lparr>M = m, R = r, N = int i,
                                 SourceHost = JoinHostPort localaddress ''8080''\<rparr>) [0..<nat m] \<and>
           reduceTasks = map (\<lambda>i. \<lparr>M = m, R = r, N = int i,
                                    SourceHosts = replicate (nat m) []\<rparr>) [0..<nat r]"
  using assms
  by (auto simp: main_tasks_def getLocalAddress_def Let_def
      split: sum.splits option.splits if_splits)

lemma JoinHostPort_nonempty: "JoinHostPort host port \<noteq> []"
  by (simp add: JoinHostPort_def)

text \<open>
  Claim C5, as the code has it. \<open>main\<close> compares \<open>m\<close> and \<open>r\<close> with nothing; what
  holds of the tasks holds by the way they are built. If \<open>main\<close> gets as far as building
  the tasks, then the local address was found and is not empty (\<open>getLocalAddress\<close> stops
  the process otherwise) and every map task carries it, with the port, as its source host;
  every map task carries \<open>M > 0\<close>, \<open>R = M / 2\<close> and \<open>0 \<le> N < M\<close>, and \<open>R > 0\<close> if the
  run has at least two map tasks; every reduce task carries \<open>M \<ge> 2\<close>, \<open>R = M / 2 > 0\<close>,
  \<open>0 \<le> N < R\<close> and exactly \<open>M\<close> slots for source hosts, empty at this point.
\<close>

theorem main_tasks_invariants:
  assumes "main_tasks Join env = Inr (mapTasks, reduceTasks)"
  shows "(\<exists>localaddress. Dial env = Inr localaddress \<and> localaddress \<noteq> [] \<and>
            (\<forall>t\<in>set mapTasks. SourceHost t = JoinHostPort localaddress ''8080'')) \<and>
         (\<forall>t\<in>set mapTasks. 0 < M t \<and> R t = M t div 2 \<and> 0 \<le> N t \<and> N t < M t \<and>
            SourceHost t \<noteq> [] \<and> (2 \<le> M t \<longrightarrow> 0 < R t)) \<and>
         (\<forall>t\<in>set reduceTasks. 2 \<le> M t \<and> R t = M t div 2 \<and> 0 < R t \<and> 0 \<le> N t \<and> N t < R t \<and>
            SourceHosts t = replicate (nat (M t)) [])"
proof -
  from main_tasks_Inr [OF assms] obtain m r localaddress where
    m: "go_div (number_of_rows env) (page_count env) = Inr m" and r: "go_div m 2 = Inr r"
    and d: "Dial env = Inr localaddress" "localaddress \<noteq> []"
    and mt: "mapTasks = map (\<lambda>i. \<lparr>M = m, R = r, N = int i,
                                 SourceHost = JoinHostPort localaddress ''8080''\<rparr>) [0..<nat m]"
    and rt: "reduceTasks = map (\<lambda>i. \<lparr>M = m, R = r, N = int i,
                                    SourceHosts = replicate (nat m) []\<rparr>) [0..<nat r]"
    by blast
  from go_div_range [OF m] have b: "- (2 ^ 63) \<le> m" "m < 2 ^ 63"
    by simp_all
  from go_div_2 [OF b r] have pos: "0 < m \<longrightarrow> r = m div 2" and neg: "m \<le> 0 \<longrightarrow> r \<le> 0"
    by simp_all
  have a: "\<exists>localaddress. Dial env = Inr localaddress \<and> localaddress \<noteq> [] \<and>
            (\<forall>t\<in>set mapTasks. SourceHost t = JoinHostPort localaddress ''8080'')"
    using d mt by auto
  have mts: "\<forall>t\<in>set mapTasks. 0 < M t \<and> R t = M t div 2 \<and> 0 \<le> N t \<and> N t < M t \<and>
            SourceHost t \<noteq> [] \<and> (2 \<le> M t \<longrightarrow> 0 < R t)"
  proof
    fix t
    assume "t \<in> set mapTasks"
    with mt obtain i where i: "i < nat m"
      and t: "t = \<lparr>M = m, R = r, N = int i, SourceHost = JoinHostPort localaddress ''8080''\<rparr>"
      by auto
    from i have "0 < m"
      by simp
    with pos have "r = m div 2"
      by simp
    moreover from i have "int i < m"
      by linarith
    moreover have "2 \<le> m \<longrightarrow> 0 < m div 2"
      by presburger
    ultimately show "0 < M t \<and> R t = M t div 2 \<and> 0 \<le> N t \<and> N t < M t \<and>
            SourceHost t \<noteq> [] \<and> (2 \<le> M t \<longrightarrow> 0 < R t)"
      using \<open>0 < m\<close> t by (simp add: JoinHostPort_nonempty)
  qed
  have rts: "\<forall>t\<in>set reduceTasks. 2 \<le> M t \<and> R t = M t div 2 \<and> 0 < R t \<and> 0 \<le> N t \<and>
            N t < R t \<and> SourceHosts t = replicate (nat (M t)) []"
  proof
    fix t
    assume "t \<in> set reduceTasks"
    with rt obtain i where i: "i < nat r"
      and t: "t = \<lparr>M = m, R = r, N = int i, SourceHosts = replicate (nat m) []\<rparr>"
      by auto
    from i have "0 < r"
      by simp
    with neg have "0 < m"
      by (cases "0 < m") simp_all
    with pos have e: "r = m div 2"
      by simp
    with \<open>0 < r\<close> have "2 \<le> m"
      by (cases "2 \<le> m") simp_all
    moreover from i have "int i < r"
      by linarith
    ultimately show "2 \<le> M t \<and> R t = M t div 2 \<and> 0 < R t \<and> 0 \<le> N t \<and>
            N t < R t \<and> SourceHosts t = replicate (nat (M t)) []"
      using e \<open>0 < r\<close> t by simp
  qed
  from a mts rts show ?thesis
    by blast
qed

text \<open>The runs of \<open>main\<close> on the inputs above.\<close>

lemma go_div_small:
  "go_div 1 1 = Inr 1" "go_div 1 2 = Inr 0" "go_div 4 1 = Inr 4" "go_div 4 2 = Inr 2"
  by (simp_all add: go_div_def wrap64_def)

lemma main_tasks_one_row:
  "main_tasks join_slash one_row =
     Inr ([\<lparr>M = 1, R = 0, N = 0, SourceHost = ''10.0.0.7:8080''\<rparr>], [])"
  by (simp add: main_tasks_def one_row_def go_div_small getLocalAddress_def JoinHostPort_def)

lemma upt_4: "[0..<4] = [0, 1, 2, 3]" "[0..<2] = [0, 1]"
  by (simp_all add: upt_conv_Cons)

lemma main_tasks_four_rows:
  "main_tasks join_slash four_rows =
     Inr ([\<lparr>M = 4, R = 2, N = 0, SourceHost = ''10.0.0.7:8080''\<rparr>,
           \<lparr>M = 4, R = 2, N = 1, SourceHost = ''10.0.0.7:8080''\<rparr>,
           \<lparr>M = 4, R = 2, N = 2, SourceHost = ''10.0.0.7:8080''\<rparr>,
           \<lparr>M = 4, R = 2, N = 3, SourceHost = ''10.0.0.7:8080''\<rparr>],
          [\<lparr>M = 4, R = 2, N = 0, SourceHosts = ['''', '''', '''', '''']\<rparr>,
           \<lparr>M = 4, R = 2, N = 1, SourceHosts = ['''', '''', '''', '''']\<rparr>])"
  by (simp add: main_tasks_def four_rows_def one_row_def go_div_small getLocalAddress_def
      JoinHostPort_def Let_def upt_4 numeral_eq_Suc)

lemma main_tasks_no_tempdir: "main_tasks join_slash no_tempdir = Inl (Fatal ErrOS)"
  by (simp add: main_tasks_def no_tempdir_def four_rows_def one_row_def go_div_small)

lemma main_tasks_no_address:
  "main_tasks join_slash (four_rows\<lparr>Dial := Inr []\<rparr>) = Inl NoLocalAddress"
  by (simp add: main_tasks_def four_rows_def one_row_def go_div_small getLocalAddress_def)

text \<open>
  Claim C5 as stated fails. On a source with one row and one page \<open>main\<close> computes
  \<open>m = 1\<close> and \<open>r = 0\<close> and builds the map task with \<open>R = 0\<close>, passing every exit it
  has; \<open>InsertPair\<close> on that task goes as far as the modulo by \<open>uint32(task.R)\<close>.
\<close>

theorem main_tasks_counterexample:
  "main_tasks join_slash one_row =
     Inr ([\<lparr>M = 1, R = 0, N = 0, SourceHost = ''10.0.0.7:8080''\<rparr>], []) \<and>
   InsertPair join_slash \<lparr>M = 1, R = 0, N = 0, SourceHost = ''10.0.0.7:8080''\<rparr> ''/tmp/mapreduce.42''
     \<lparr>Key = ''the'', Value = ''1''\<rparr> \<lparr>disk = Map.empty, net = Map.empty\<rparr> = Inl DivideByZero"
  by (simp add: main_tasks_one_row InsertPair_def InsertPair_r_def)

theorem main_tasks_invariants_witness:
  "main_tasks join_slash four_rows =
     Inr ([\<lparr>M = 4, R = 2, N = 0, SourceHost = ''10.0.0.7:8080''\<rparr>,
           \<lparr>M = 4, R = 2, N = 1, SourceHost = ''10.0.0.7:8080''\<rparr>,
           \<lparr>M = 4, R = 2, N = 2, SourceHost = ''10.0.0.7:8080''\<rparr>,
           \<lparr>M = 4, R = 2, N = 3, SourceHost = ''10.0.0.7:8080''\<rparr>],
          [\<lparr>M = 4, R = 2, N = 0, SourceHosts = ['''', '''', '''', '''']\<rparr>,
           \<lparr>M = 4, R = 2, N = 1, SourceHosts = ['''', '''', '''', '''']\<rparr>]) \<and>
   Dial four_rows = Inr ''10.0.0.7'' \<and>
   0 < R \<lparr>M = 4, R = 2, N = 3, SourceHost = ''10.0.0.7:8080''\<rparr> \<and>
   N \<lparr>M = 4, R = 2, N = 1, SourceHosts = ['''', '''', '''', '''']\<rparr>
     < R \<lparr>M = 4, R = 2, N = 1, SourceHosts = ['''', '''', '''', '''']\<rparr>"
proof -
  let ?t = "\<lparr>M = 4, R = 2, N = 3, SourceHost = ''10.0.0.7:8080''\<rparr>"
  let ?s = "\<lparr>M = 4, R = 2, N = 1, SourceHosts = ['''', '''', '''', '''']\<rparr>"
  note i = main_tasks_invariants [OF main_tasks_four_rows]
  from i have "\<exists>localaddress. Dial four_rows = Inr localaddress \<and> localaddress \<noteq> [] \<and>
     SourceHost ?t = JoinHostPort localaddress ''8080''"
    by simp
  moreover from i have "2 \<le> M ?t \<longrightarrow> 0 < R ?t"
    by simp
  moreover from i have "N ?s < R ?s"
    by simp
  moreover have "Dial four_rows = Inr ''10.0.0.7''"
    by (simp add: four_rows_def one_row_def)
  ultimately show ?thesis
    using main_tasks_four_rows by simp
qed

end
